theory Spec2Isabelle
  imports Complex_Main
begin

section \<open>Data model\<close>

text \<open>
  The calendar event view-model (\<^verbatim>\<open>CalendarEventViewModel\<close>) and the invitation reply
  (\<^verbatim>\<open>replyToEventInvitation\<close>) are embedded shallowly. Entities are records, enums
  are datatypes, a thrown error or a rejected promise is a value of \<open>error\<close>, and the calls to
  the collaborators that are not part of these files (update distributor, calendar model,
  prompts) are collected in a trace, in the order in which the code issues them.
\<close>

datatype error =
    UserError string
  | AssertNotNull
  | Rejected string

datatype calendarAttendeeStatus = ADDED | NEEDS_ACTION | ACCEPTED | DECLINED | TENTATIVE

datatype recipientInfoType = UNKNOWN | INTERNAL | EXTERNAL

datatype accountType = SYSTEM | FREE | STARTER | PREMIUM | EXTERNAL_ACCOUNT

datatype endTypeEnum = Never | Count | UntilDate

datatype repeatPeriod = DAILY | WEEKLY | MONTHLY | ANNUALLY

datatype eventTypeEnum = OWN | SHARED_RO | SHARED_RW | INVITE

subsection \<open>JavaScript numbers\<close>

text \<open>
  A JavaScript number is NaN, an infinity, or a finite value. Only comparisons and truthiness
  of numbers are used by the code, and these are exact on doubles, so a finite number is
  represented by its rational value.
\<close>

datatype number = NaN | NegInfinity | Finite rat | PosInfinity

fun isNaN :: "number \<Rightarrow> bool" where
  "isNaN NaN = True"
| "isNaN _ = False"

text \<open>\<^verbatim>\<open>a < b\<close> on numbers: false as soon as one side is NaN.\<close>

fun lessThan_num :: "number \<Rightarrow> number \<Rightarrow> bool" where
  "lessThan_num NaN _ = False"
| "lessThan_num _ NaN = False"
| "lessThan_num NegInfinity NegInfinity = False"
| "lessThan_num NegInfinity _ = True"
| "lessThan_num _ NegInfinity = False"
| "lessThan_num PosInfinity _ = False"
| "lessThan_num (Finite a) (Finite b) = (a < b)"
| "lessThan_num (Finite a) PosInfinity = True"

text \<open>\<^verbatim>\<open>a >= b\<close> on numbers.\<close>

fun greaterEq_num :: "number \<Rightarrow> number \<Rightarrow> bool" where
  "greaterEq_num NaN _ = False"
| "greaterEq_num _ NaN = False"
| "greaterEq_num _ NegInfinity = True"
| "greaterEq_num NegInfinity _ = False"
| "greaterEq_num PosInfinity _ = True"
| "greaterEq_num (Finite a) (Finite b) = (a \<ge> b)"
| "greaterEq_num (Finite a) PosInfinity = False"

text \<open>Truthiness of a number, as tested by \<^verbatim>\<open>x || 1\<close>: NaN and zero are falsy.\<close>

fun truthy :: "number \<Rightarrow> bool" where
  "truthy NaN = False"
| "truthy (Finite q) = (q \<noteq> 0)"
| "truthy _ = True"

text \<open>
  \<^verbatim>\<open>new Date(x).getTime()\<close> for a number \<^verbatim>\<open>x\<close>: the time value truncated towards zero,
  or no time value (an invalid date) when \<^verbatim>\<open>x\<close> is not finite or is out of the range of
  dates.
\<close>

definition newDate :: "number \<Rightarrow> int option" where
  "newDate x =
     (case x of
        Finite q \<Rightarrow>
          (let t = (if q < 0 then - \<lfloor>- q\<rfloor> else \<lfloor>q\<rfloor>)
           in if \<bar>t\<bar> \<le> 8640000000000000 then Some t else None)
      | _ \<Rightarrow> None)"

subsection \<open>Entities\<close>

record encryptedMailAddress =
  name :: "string option"
  address :: string

record calendarEventAttendee =
  aAddress :: encryptedMailAddress
  aStatus :: calendarAttendeeStatus

text \<open>
  The stored repeat rule. Its interval and end value are number strings in the entity; the
  model keeps the number whose decimal string \<^verbatim>\<open>String(n)\<close> is stored. A rule without an
  end value has \<open>None\<close>.
\<close>

record repeatRule =
  rule_frequency :: repeatPeriod
  rule_interval :: number
  rule_endType :: endTypeEnum
  rule_endValue :: "number option"

record alarmInfo =
  alarmIdentifier :: string
  trigger :: string

text \<open>
  The calendar event. Times are epoch milliseconds; the sequence counter is a number string in
  the entity and is kept as the integer it denotes (the code computes on it as a number, which
  is exact for integers below \<open>2^53\<close>). \<open>ownerGroup\<close> and \<open>elementId\<close> are the
  fields \<^verbatim>\<open>_ownerGroup\<close> and \<^verbatim>\<open>_id\<close>.
\<close>

record calendarEvent =
  summary :: string
  description :: string
  location :: string
  startTime :: int
  endTime :: int
  uid :: "string option"
  sequence :: int
  organizer :: "encryptedMailAddress option"
  attendees :: "calendarEventAttendee list"
  repeatRule :: "repeatRule option"
  invitedConfidentially :: "bool option"
  ownerGroup :: "string option"
  elementId :: "string option"
  alarmInfos :: "string list"

record contact =
  presharedPassword :: "string option"

record recipientInfo =
  mailAddress :: string
  riName :: "string option"
  riContact :: "contact option"
  riType :: recipientInfoType

record guest =
  gAddress :: encryptedMailAddress
  gType :: recipientInfoType
  gStatus :: calendarAttendeeStatus
  gPassword :: "string option"

record repeatData =
  frequency :: repeatPeriod
  interval :: number
  endType :: endTypeEnum
  endValue :: number

record calendarInfo =
  groupId :: string
  groupRoot :: string
  shared :: bool

text \<open>
  The part of a \<^verbatim>\<open>SendMailModel\<close> that the view-model reads and writes: its recipient
  lists and its confidentiality flag.
\<close>

record sendMailModel =
  toRecipients :: "recipientInfo list"
  bccRecipients :: "recipientInfo list"
  confidential :: bool

text \<open>
  The state of a \<^verbatim>\<open>CalendarEventViewModel\<close>. Streams are kept by their current value; the
  stream \<^verbatim>\<open>attendees\<close> is derived from other fields and is the function \<open>attendeesOf\<close> below.
\<close>

record viewModel =
  vmSummary :: string
  selectedCalendar :: "calendarInfo option"
  startDate :: int
  endDate :: int
  vmStartTime :: string
  vmEndTime :: string
  allDay :: bool
  repeat :: "repeatData option"
  vmOrganizer :: "encryptedMailAddress option"
  vmLocation :: string
  vmNote :: string
  existingEvent :: "calendarEvent option"
  zone :: string
  alarms :: "alarmInfo list"
  userAccountType :: accountType
  eventType :: eventTypeEnum
  inviteModel :: sendMailModel
  updateModel :: sendMailModel
  cancelModel :: sendMailModel
  mailAddresses :: "string list"
  guestStatuses :: "string \<rightharpoonup> calendarAttendeeStatus"
  ownAttendee :: "encryptedMailAddress option"
  responseTo :: "string option"
  processing :: bool

text \<open>
  The helpers that the view-model imports from files outside this development
  (\<^verbatim>\<open>CalendarUtils\<close>, the date library, the mail model) are parameters of the model:
  \<^item> \<open>parseTime\<close>: hours and minutes of a time string, or nothing;
  \<^item> \<open>getAllDayDateUTCFromZone\<close>, \<open>getStartOfNextDayWithZone\<close>, \<open>getStartOfDayWithZone\<close>:
    date arithmetic in a named zone;
  \<^item> \<open>getEventStart\<close>: the start of an event resolved in a zone;
  \<^item> \<open>setHourMinute\<close>: \<^verbatim>\<open>DateTime.fromJSDate(d, {zone}).set({hour, minute}).toJSDate()\<close>;
  \<^item> \<open>generateUid\<close>: the uid made from a group id (and the clock);
  \<^item> \<open>recipientType\<close>: the type the mail model resolves for an address;
  \<^item> \<open>getPasswordStrength\<close>: the strength the mail model computes for a recipient's password.
\<close>

record env =
  parseTime :: "string \<Rightarrow> (nat \<times> nat) option"
  getAllDayDateUTCFromZone :: "int \<Rightarrow> string \<Rightarrow> int"
  getStartOfNextDayWithZone :: "int \<Rightarrow> string \<Rightarrow> int"
  getStartOfDayWithZone :: "int \<Rightarrow> string \<Rightarrow> int"
  getEventStart :: "calendarEvent \<Rightarrow> string \<Rightarrow> int"
  setHourMinute :: "int \<Rightarrow> string \<Rightarrow> nat \<Rightarrow> nat \<Rightarrow> int"
  generateUid :: "string \<Rightarrow> string"
  recipientType :: "string \<Rightarrow> recipientInfoType"
  getPasswordStrength :: "recipientInfo \<Rightarrow> nat"

section \<open>Building the repeat rule\<close>

text \<open>
  Modelled from the spec: \<^verbatim>\<open>createRepeatRuleWithValues\<close> of \<^verbatim>\<open>CalendarUtils\<close> is not among
  the source files. The rule builder "converts interval, frequency, and end condition into a
  persisted rule": the fresh rule carries the frequency and the interval, ends never and has
  no end value.
\<close>

definition createRepeatRuleWithValues :: "repeatPeriod \<Rightarrow> number \<Rightarrow> repeatRule" where
  "createRepeatRuleWithValues f i =
     \<lparr>rule_frequency = f, rule_interval = i, rule_endType = Never, rule_endValue = None\<rparr>"

text \<open>
  \<^verbatim>\<open>createRepeatRule(newEvent, repeat)\<close>. An end value that is not a valid date goes through the
  date helpers as an invalid date, whose time value is NaN: the comparison with the start is
  false and NaN is stored.
\<close>

definition createRepeatRule ::
  "env \<Rightarrow> viewModel \<Rightarrow> calendarEvent \<Rightarrow> repeatData \<Rightarrow> error + repeatRule" where
  "createRepeatRule e vm newEvent rep =
     (let interval' = (if truthy (interval rep) then interval rep else Finite 1);
          rule = (createRepeatRuleWithValues (frequency rep) interval')
                   \<lparr>rule_endType := endType rep\<rparr>;
          stopType = endType rep
      in if stopType = Count then
           (let count = endValue rep
            in if isNaN count \<or> lessThan_num count (Finite 1)
               then Inr (rule\<lparr>rule_endType := Never\<rparr>)
               else Inr (rule\<lparr>rule_endValue := Some count\<rparr>))
         else if stopType = UntilDate then
           (case newDate (endValue rep) of
              None \<Rightarrow> Inr (rule\<lparr>rule_endValue := Some NaN\<rparr>)
            | Some d \<Rightarrow>
                (let repeatEndDate = getStartOfNextDayWithZone e d (zone vm)
                 in if repeatEndDate < getEventStart e newEvent (zone vm)
                    then Inl (UserError ''startAfterEnd_label'')
                    else Inr (rule\<lparr>rule_endValue := Some (Finite (of_int
                           (if allDay vm
                            then getAllDayDateUTCFromZone e repeatEndDate (zone vm)
                            else repeatEndDate)))\<rparr>)))
         else Inr rule)"

subsection \<open>Zones with a fixed offset\<close>

definition DAY_MS :: int where
  "DAY_MS = 86400000"

text \<open>
  Modelled from the spec: \<^verbatim>\<open>getStartOfNextDayWithZone\<close> of \<^verbatim>\<open>CalendarUtils\<close> is not among the
  source files. The end boundary "is computed in the event's resolved time zone" and is the
  "exclusive boundary one day later": the instant at which the next calendar day starts in the
  zone. A zone \<open>z\<close> is taken with a fixed offset \<open>off z\<close> from UTC, in milliseconds.
\<close>

definition startOfNextDayFixed :: "(string \<Rightarrow> int) \<Rightarrow> int \<Rightarrow> string \<Rightarrow> int" where
  "startOfNextDayFixed off t z = ((t + off z) div DAY_MS + 1) * DAY_MS - off z"

text \<open>
  Modelled from the spec: \<^verbatim>\<open>getStartOfDayWithZone\<close> of \<^verbatim>\<open>CalendarUtils\<close> is not among the source
  files: the instant at which the calendar day of \<open>t\<close> starts in the zone.
\<close>

definition startOfDayFixed :: "(string \<Rightarrow> int) \<Rightarrow> int \<Rightarrow> string \<Rightarrow> int" where
  "startOfDayFixed off t z = ((t + off z) div DAY_MS) * DAY_MS - off z"

text \<open>
  Modelled from the spec: \<^verbatim>\<open>getAllDayDateUTCFromZone\<close> of \<^verbatim>\<open>CalendarUtils\<close> is not among the
  source files. All-day events "store the boundary as a UTC-encoded calendar date rather than a
  zoned instant": UTC midnight of the calendar day that \<open>t\<close> has in the zone.
\<close>

definition allDayDateUTCFixed :: "(string \<Rightarrow> int) \<Rightarrow> int \<Rightarrow> string \<Rightarrow> int" where
  "allDayDateUTCFixed off t z = ((t + off z) div DAY_MS) * DAY_MS"

text \<open>
  Modelled from the spec: \<^verbatim>\<open>isAllDayEvent\<close> of \<^verbatim>\<open>CommonCalendarUtils\<close> is not among the source
  files. An all-day event is an "event with date-only boundaries, stored as UTC-encoded
  calendar dates": both boundaries are UTC midnights.
\<close>

definition isAllDayEvent :: "calendarEvent \<Rightarrow> bool" where
  "isAllDayEvent ev = (startTime ev mod DAY_MS = 0 \<and> endTime ev mod DAY_MS = 0)"

text \<open>
  Modelled from the spec: \<^verbatim>\<open>getEventStart\<close> of \<^verbatim>\<open>CalendarUtils\<close> is not among the source files.
  The "event's resolved start" is the start instant of a timed event, and for an all-day event
  the instant at which its UTC-encoded calendar day starts in the zone.
\<close>

definition eventStartFixed :: "(string \<Rightarrow> int) \<Rightarrow> calendarEvent \<Rightarrow> string \<Rightarrow> int" where
  "eventStartFixed off ev z = (if isAllDayEvent ev then startTime ev - off z else startTime ev)"

text \<open>
  The date library's \<^verbatim>\<open>set({hour, minute})\<close> in a zone with a fixed offset: the calendar day, the
  seconds and the milliseconds of the instant are kept.
\<close>

definition setHourMinuteFixed :: "(string \<Rightarrow> int) \<Rightarrow> int \<Rightarrow> string \<Rightarrow> nat \<Rightarrow> nat \<Rightarrow> int" where
  "setHourMinuteFixed off t z h m =
     ((t + off z) div DAY_MS) * DAY_MS + int h * 3600000 + int m * 60000
       + (t + off z) mod 60000 - off z"

text \<open>An environment whose date helpers are the ones of fixed-offset zones.\<close>

definition fixedOffsetEnv :: "(string \<Rightarrow> int) \<Rightarrow> env \<Rightarrow> env" where
  "fixedOffsetEnv off e =
     e\<lparr>getAllDayDateUTCFromZone := allDayDateUTCFixed off,
       getStartOfNextDayWithZone := startOfNextDayFixed off,
       getStartOfDayWithZone := startOfDayFixed off,
       getEventStart := eventStartFixed off,
       setHourMinute := setHourMinuteFixed off\<rparr>"

section \<open>Attendees of the view-model\<close>

datatype recipientField = To | Bcc

text \<open>
  Modelled from the spec: \<^verbatim>\<open>SendMailModel\<close> is not among the source files. It holds the "target
  recipient list" that goes to the mail-delivery collaborator with a notification.
  \<^verbatim>\<open>addRecipient(field, {address, name, contact})\<close> puts a recipient with the resolved type at the
  end of the list of the field and returns it.
\<close>

definition addRecipient ::
  "env \<Rightarrow> sendMailModel \<Rightarrow> recipientField \<Rightarrow> string \<Rightarrow> string option \<Rightarrow> contact option
     \<Rightarrow> recipientInfo \<times> sendMailModel" where
  "addRecipient e m field addr nm c =
     (let r = \<lparr>mailAddress = addr, riName = nm, riContact = c, riType = recipientType e addr\<rparr>
      in (r, case field of
               To \<Rightarrow> m\<lparr>toRecipients := toRecipients m @ [r]\<rparr>
             | Bcc \<Rightarrow> m\<lparr>bccRecipients := bccRecipients m @ [r]\<rparr>))"


text \<open>
  The guest shown for a recipient (the mapping inside \<^verbatim>\<open>_initAttendees\<close>): an absent contact, an
  absent password and an empty password all give no password; a missing status is
  \<^verbatim>\<open>NEEDS_ACTION\<close>.
\<close>

definition guestOfRecipient :: "(string \<rightharpoonup> calendarAttendeeStatus) \<Rightarrow> recipientInfo \<Rightarrow> guest" where
  "guestOfRecipient statuses r =
     \<lparr>gAddress = \<lparr>name = riName r, address = mailAddress r\<rparr>,
      gType = riType r,
      gStatus = (case statuses (mailAddress r) of None \<Rightarrow> NEEDS_ACTION | Some s \<Rightarrow> s),
      gPassword =
        (case riContact r of
           None \<Rightarrow> None
         | Some c \<Rightarrow>
             (case presharedPassword c of
                None \<Rightarrow> None
              | Some p \<Rightarrow> if p = [] then None else Some p))\<rparr>"

text \<open>
  The current value of the stream \<^verbatim>\<open>attendees\<close> (\<^verbatim>\<open>_initAttendees\<close>): the recipients of the invite
  model, then those of the update model, with the own attendee in front when there is one.
\<close>

definition attendeesOf :: "viewModel \<Rightarrow> guest list" where
  "attendeesOf vm =
     (let guests = map (guestOfRecipient (guestStatuses vm))
                     (bccRecipients (inviteModel vm) @ bccRecipients (updateModel vm))
      in case ownAttendee vm of
           None \<Rightarrow> guests
         | Some own \<Rightarrow>
             \<lparr>gAddress = own, gType = INTERNAL,
              gStatus = (case guestStatuses vm (address own) of None \<Rightarrow> ACCEPTED | Some s \<Rightarrow> s),
              gPassword = None\<rparr> # guests)"

definition findOwnAttendee :: "viewModel \<Rightarrow> guest option" where
  "findOwnAttendee vm =
     find (\<lambda>a. address (gAddress a) \<in> set (mailAddresses vm)) (attendeesOf vm)"

definition viewingOwnEvent :: "viewModel \<Rightarrow> bool" where
  "viewingOwnEvent vm = (eventType vm = OWN)"

definition canModifyOwnAttendance :: "viewModel \<Rightarrow> bool" where
  "canModifyOwnAttendance vm =
     ((eventType vm = OWN \<or> eventType vm = INVITE)
      \<and> (viewingOwnEvent vm \<or> findOwnAttendee vm \<noteq> None))"

text \<open>
  \<^verbatim>\<open>selectGoing(going)\<close>. \<^verbatim>\<open>firstThrow\<close> raises on an empty list of own addresses; a mail address
  created from an address alone has the empty name.
\<close>

definition selectGoing :: "viewModel \<Rightarrow> calendarAttendeeStatus \<Rightarrow> error + viewModel" where
  "selectGoing vm going =
     (if canModifyOwnAttendance vm then
        (case ownAttendee vm of
           Some own \<Rightarrow> Inr (vm\<lparr>guestStatuses := (guestStatuses vm)(address own \<mapsto> going)\<rparr>)
         | None \<Rightarrow>
             if eventType vm = OWN then
               (case mailAddresses vm of
                  [] \<Rightarrow> Inl AssertNotNull
                | a # _ \<Rightarrow>
                    Inr (vm\<lparr>ownAttendee := Some \<lparr>name = Some [], address = a\<rparr>,
                             guestStatuses := (guestStatuses vm)(a \<mapsto> going)\<rparr>))
             else Inr vm)
      else Inr vm)"

text \<open>\<^verbatim>\<open>addAttendee(mailAddress, contact)\<close>.\<close>

definition addAttendee :: "env \<Rightarrow> viewModel \<Rightarrow> string \<Rightarrow> contact option \<Rightarrow> error + viewModel" where
  "addAttendee e vm addr c =
     (if \<exists>a \<in> set (attendeesOf vm). address (gAddress a) = addr then Inr vm
      else
        (case addRecipient e (inviteModel vm) Bcc addr None c of
           (recipient, m) \<Rightarrow>
             (let isOwnAttendee = (addr \<in> set (mailAddresses vm));
                  status = (if isOwnAttendee then ACCEPTED else ADDED);
                  vm1 = vm\<lparr>inviteModel := m,
                           guestStatuses := (guestStatuses vm)(mailAddress recipient \<mapsto> status)\<rparr>
              in if length (attendeesOf vm1) = 1 \<and> findOwnAttendee vm1 = None
                 then selectGoing vm1 ACCEPTED
                 else Inr vm1)))"



definition setConfidential :: "viewModel \<Rightarrow> bool \<Rightarrow> viewModel" where
  "setConfidential vm c =
     vm\<lparr>inviteModel := (inviteModel vm)\<lparr>confidential := c\<rparr>,
        updateModel := (updateModel vm)\<lparr>confidential := c\<rparr>,
        cancelModel := (cancelModel vm)\<lparr>confidential := c\<rparr>\<rparr>"

definition isConfidential :: "viewModel \<Rightarrow> bool" where
  "isConfidential vm =
     (confidential (inviteModel vm) \<and> confidential (updateModel vm)
      \<and> confidential (cancelModel vm))"

text \<open>\<^verbatim>\<open>_checkPasswords()\<close>: the error it throws, if any.\<close>

definition checkPasswords :: "viewModel \<Rightarrow> error option" where
  "checkPasswords vm =
     (if \<exists>a \<in> set (attendeesOf vm).
           gType a = EXTERNAL \<and> (gPassword a = None \<or> gPassword a = Some [])
      then Some (UserError ''noPreSharedPassword_msg'')
      else None)"

definition hasPresharedPassword :: "recipientInfo \<Rightarrow> bool" where
  "hasPresharedPassword r =
     (case riContact r of
        None \<Rightarrow> False
      | Some c \<Rightarrow> (case presharedPassword c of None \<Rightarrow> False | Some p \<Rightarrow> p \<noteq> []))"

text \<open>All recipients of one send model (\<^verbatim>\<open>_allRecipients\<close>, \<^verbatim>\<open>_waitForResolvedRecipients\<close>).\<close>

definition modelRecipients :: "sendMailModel \<Rightarrow> recipientInfo list" where
  "modelRecipients m = toRecipients m @ bccRecipients m"

text \<open>\<^verbatim>\<open>hasInsecurePasswords()\<close>, with the recipients of the three models already resolved.\<close>

definition hasInsecurePasswords :: "env \<Rightarrow> viewModel \<Rightarrow> bool" where
  "hasInsecurePasswords e vm =
     (if \<not> isConfidential vm then False
      else if eventType vm = INVITE then False
      else isConfidential vm
           \<and> (\<exists>r \<in> set (filter hasPresharedPassword
                          (modelRecipients (inviteModel vm) @ modelRecipients (updateModel vm)
                           @ modelRecipients (cancelModel vm))).
                 getPasswordStrength e r < 80))"

section \<open>Saving and sending\<close>

text \<open>
  The calls that leave the view-model, with their arguments at the moment of the call: the two
  prompts, the four notifications of the update distributor, the persistence calls of the
  calendar model (with zone and group root), the loading of alarms, the error dialog and the
  creation of a calendar by the worker. \<^verbatim>\<open>showProgress\<close> only displays the pending promise and
  is not recorded.
\<close>

datatype call =
    AskForUpdates
  | AskInsecurePassword
  | SendInvite calendarEvent sendMailModel
  | SendCancellation calendarEvent sendMailModel
  | SendUpdate calendarEvent sendMailModel
  | SendResponse calendarEvent sendMailModel string "string option" calendarAttendeeStatus
  | CreateEvent calendarEvent "alarmInfo list" string string
  | UpdateEvent calendarEvent "alarmInfo list" string string calendarEvent
  | LoadAlarms "string list"
  | DialogError string
  | AddCalendar string

datatype callKind =
    KAskForUpdates | KAskInsecurePassword | KSendInvite | KSendCancellation | KSendUpdate
  | KSendResponse | KCreateEvent | KUpdateEvent | KLoadAlarms | KDialogError | KAddCalendar

fun kindOf :: "call \<Rightarrow> callKind" where
  "kindOf AskForUpdates = KAskForUpdates"
| "kindOf AskInsecurePassword = KAskInsecurePassword"
| "kindOf (SendInvite _ _) = KSendInvite"
| "kindOf (SendCancellation _ _) = KSendCancellation"
| "kindOf (SendUpdate _ _) = KSendUpdate"
| "kindOf (SendResponse _ _ _ _ _) = KSendResponse"
| "kindOf (CreateEvent _ _ _ _) = KCreateEvent"
| "kindOf (UpdateEvent _ _ _ _ _) = KUpdateEvent"
| "kindOf (LoadAlarms _) = KLoadAlarms"
| "kindOf (DialogError _) = KDialogError"
| "kindOf (AddCalendar _) = KAddCalendar"

text \<open>
  What the surroundings answer during one save: the user's answers to the two prompts, the
  send model the factory makes for a response, and for every call to the distributor or the
  calendar model whether its promise is rejected, and with which error.
\<close>

record world =
  askForUpdates :: bool
  askInsecurePassword :: bool
  sendModelFactory :: sendMailModel
  rejects :: "call \<Rightarrow> error option"

text \<open>
  Modelled from the spec: the entity factory \<^verbatim>\<open>createCalendarEvent\<close> is not among the source
  files. A calendar event is "created by a user action" and filled in by the save: the fresh
  event has empty texts, sequence zero, and no uid, organizer, attendee, repeat rule, owner
  group or id.
\<close>

definition createCalendarEvent :: calendarEvent where
  "createCalendarEvent =
     \<lparr>summary = [], description = [], location = [], startTime = 0, endTime = 0, uid = None,
      sequence = 0, organizer = None, attendees = [], repeatRule = None,
      invitedConfidentially = None, ownerGroup = None, elementId = None, alarmInfos = []\<rparr>"

text \<open>The start and end timestamps computed at the beginning of \<^verbatim>\<open>saveAndSend\<close>.\<close>

definition saveAndSend_times :: "env \<Rightarrow> viewModel \<Rightarrow> error + (int \<times> int)" where
  "saveAndSend_times e vm =
     (if allDay vm then
        Inr (getAllDayDateUTCFromZone e (startDate vm) (zone vm),
             getAllDayDateUTCFromZone e
               (getStartOfNextDayWithZone e (endDate vm) (zone vm)) (zone vm))
      else
        (case (parseTime e (vmStartTime vm), parseTime e (vmEndTime vm)) of
           (Some (sh, sm), Some (eh, em)) \<Rightarrow>
             Inr (setHourMinute e (startDate vm) (zone vm) sh sm,
                  setHourMinute e (endDate vm) (zone vm) eh em)
         | _ \<Rightarrow> Inl (UserError ''timeFormatInvalid_msg'')))"

text \<open>
  The uid of the saved event: the one of the existing event when it has a non-empty one,
  otherwise a generated one, for which the selected calendar must not be null.
\<close>

definition saveAndSend_uid :: "env \<Rightarrow> viewModel \<Rightarrow> error + string" where
  "saveAndSend_uid e vm =
     (case (case existingEvent vm of None \<Rightarrow> None | Some ex \<Rightarrow> uid ex) of
        Some u \<Rightarrow>
          if u \<noteq> [] then Inr u
          else (case selectedCalendar vm of
                  None \<Rightarrow> Inl AssertNotNull
                | Some cal \<Rightarrow> Inr (generateUid e (groupId cal)))
      | None \<Rightarrow>
          (case selectedCalendar vm of
             None \<Rightarrow> Inl AssertNotNull
           | Some cal \<Rightarrow> Inr (generateUid e (groupId cal))))"

text \<open>
  The event that \<^verbatim>\<open>saveAndSend\<close> builds before any call is made: a clone of the existing event
  or a fresh one, filled from the view-model. The time-range check and the repeat rule may
  throw.
\<close>

definition saveAndSend_newEvent :: "env \<Rightarrow> viewModel \<Rightarrow> error + calendarEvent" where
  "saveAndSend_newEvent e vm =
     (case saveAndSend_times e vm of
        Inl err \<Rightarrow> Inl err
      | Inr (startD, endD) \<Rightarrow>
          if endD \<le> startD then Inl (UserError ''startAfterEnd_label'')
          else
            (let ev0 = (case existingEvent vm of None \<Rightarrow> createCalendarEvent | Some ex \<Rightarrow> ex);
                 ev1 = ev0\<lparr>startTime := startD, description := vmNote vm,
                           summary := vmSummary vm, location := vmLocation vm, endTime := endD,
                           invitedConfidentially := Some (isConfidential vm)\<rparr>
             in case saveAndSend_uid e vm of
                  Inl err \<Rightarrow> Inl err
                | Inr u \<Rightarrow>
                    (let ev2 = ev1\<lparr>uid := Some u\<rparr>
                     in case (case repeat vm of
                                None \<Rightarrow> Inr None
                              | Some rep \<Rightarrow>
                                  (case createRepeatRule e vm ev2 rep of
                                     Inl err \<Rightarrow> Inl err
                                   | Inr rule \<Rightarrow> Inr (Some rule))) of
                          Inl err \<Rightarrow> Inl err
                        | Inr rule \<Rightarrow>
                            Inr (ev2\<lparr>repeatRule := rule,
                                     attendees :=
                                       map (\<lambda>a. \<lparr>aAddress = gAddress a, aStatus = gStatus a\<rparr>)
                                         (attendeesOf vm),
                                     sequence :=
                                       (case existingEvent vm of
                                          None \<Rightarrow> sequence ev2
                                        | Some ex \<Rightarrow> sequence ex + 1),
                                     organizer := vmOrganizer vm\<rparr>))))"

text \<open>
  The diff of attendees computed for an own event: the current guests that are not an own
  address and whose address is on the existing event.
\<close>

definition saveAndSend_existingAttendees :: "viewModel \<Rightarrow> guest list" where
  "saveAndSend_existingAttendees vm =
     (if viewingOwnEvent vm then
        (case existingEvent vm of
           None \<Rightarrow> []
         | Some ex \<Rightarrow>
             filter (\<lambda>g. address (gAddress g) \<notin> set (mailAddresses vm)
                         \<and> (\<exists>ea \<in> set (attendees ex).
                               address (aAddress ea) = address (gAddress g)))
               (attendeesOf vm))
      else [])"

text \<open>The element found by \<^verbatim>\<open>find\<close> is changed in place: the first one that satisfies \<open>P\<close>.\<close>

fun updateFirst :: "('a \<Rightarrow> bool) \<Rightarrow> ('a \<Rightarrow> 'a) \<Rightarrow> 'a list \<Rightarrow> 'a list" where
  "updateFirst P f [] = []"
| "updateFirst P f (x # xs) = (if P x then f x # xs else x # updateFirst P f xs)"

text \<open>
  Saving an event that is not the user's own: when the own attendance on the existing event
  differs from the selected one, the status is written into the existing event and a response
  is sent to the organizer. The response is not awaited, so its rejection does not reach the
  result. Returns the error thrown (if any), the view-model and the calls made.
\<close>

definition saveAndSend_response ::
  "env \<Rightarrow> world \<Rightarrow> viewModel \<Rightarrow> calendarEvent
     \<Rightarrow> error option \<times> viewModel \<times> call list" where
  "saveAndSend_response e w vm newEvent =
     (case existingEvent vm of
        None \<Rightarrow> (None, vm, [])
      | Some ex \<Rightarrow>
          (case find (\<lambda>a. address (aAddress a) \<in> set (mailAddresses vm)) (attendees ex) of
             None \<Rightarrow> (None, vm, [])
           | Some own \<Rightarrow>
               (let going = guestStatuses vm (address (aAddress own))
                in if going \<noteq> Some NEEDS_ACTION \<and> Some (aStatus own) \<noteq> going then
                     (case going of
                        None \<Rightarrow> (Some AssertNotNull, vm, [])
                      | Some g \<Rightarrow>
                          (let ex' = ex\<lparr>attendees :=
                                 updateFirst
                                   (\<lambda>a. address (aAddress a) \<in> set (mailAddresses vm))
                                   (\<lambda>a. a\<lparr>aStatus := g\<rparr>) (attendees ex)\<rparr>;
                               vm' = vm\<lparr>existingEvent := Some ex'\<rparr>
                           in case organizer ex of
                                None \<Rightarrow> (Some AssertNotNull, vm', [])
                              | Some org \<Rightarrow>
                                  (let m = snd (addRecipient e (sendModelFactory w) To
                                                  (address org) (name org) None)
                                   in (None, vm',
                                       [SendResponse newEvent m (address (aAddress own))
                                          (responseTo vm) g]))))
                   else (None, vm, []))))"

text \<open>\<^verbatim>\<open>doCreateEvent()\<close>: the rejection (if any) and the calls made.\<close>

definition doCreateEvent ::
  "world \<Rightarrow> viewModel \<Rightarrow> calendarEvent \<Rightarrow> alarmInfo list \<Rightarrow> error option \<times> call list" where
  "doCreateEvent w vm newEvent newAlarms =
     (if userAccountType vm = EXTERNAL_ACCOUNT then (None, [])
      else
        (case selectedCalendar vm of
           None \<Rightarrow> (Some AssertNotNull, [])
         | Some cal \<Rightarrow>
             (let c = (case existingEvent vm of
                         None \<Rightarrow> CreateEvent newEvent newAlarms (zone vm) (groupRoot cal)
                       | Some ex \<Rightarrow>
                           if elementId ex = None
                           then CreateEvent newEvent newAlarms (zone vm) (groupRoot cal)
                           else UpdateEvent newEvent newAlarms (zone vm) (groupRoot cal) ex)
              in (rejects w c, [c]))))"

text \<open>\<^verbatim>\<open>passwordCheck()\<close>: whether to go on, and the prompt made.\<close>

definition passwordCheck :: "env \<Rightarrow> world \<Rightarrow> viewModel \<Rightarrow> bool \<times> call list" where
  "passwordCheck e w vm =
     (if hasInsecurePasswords e vm then (askInsecurePassword w, [AskInsecurePassword])
      else (True, []))"

text \<open>
  \<^verbatim>\<open>_sendInvite(event)\<close>: when the event has attendees with status \<^verbatim>\<open>ADDED\<close>, the invite is sent
  with the invite model; after it went out these attendees and their guest statuses become
  \<^verbatim>\<open>NEEDS_ACTION\<close>.
\<close>

definition sendInvite ::
  "world \<Rightarrow> viewModel \<Rightarrow> calendarEvent
     \<Rightarrow> error option \<times> viewModel \<times> calendarEvent \<times> call list" where
  "sendInvite w vm ev =
     (let newAttendees = filter (\<lambda>a. aStatus a = ADDED) (attendees ev)
      in if length newAttendees > 0 then
           (let c = SendInvite ev (inviteModel vm)
            in case rejects w c of
                 Some err \<Rightarrow> (Some err, vm, ev, [c])
               | None \<Rightarrow>
                   (None,
                    vm\<lparr>guestStatuses :=
                         foldl (\<lambda>m a. m(address (aAddress a) \<mapsto> NEEDS_ACTION))
                           (guestStatuses vm) newAttendees\<rparr>,
                    ev\<lparr>attendees :=
                         map (\<lambda>a. if aStatus a = ADDED then a\<lparr>aStatus := NEEDS_ACTION\<rparr> else a)
                           (attendees ev)\<rparr>,
                    [c]))
         else (None, vm, ev, []))"

text \<open>
  The chain of an own event once it is decided to go on: invite, cancellation when the cancel
  model has recipients (only on the path that asked for updates), persistence, and the update
  when it was confirmed and there are existing attendees. The first rejection ends the chain.
\<close>

definition saveAndSend_chain ::
  "world \<Rightarrow> viewModel \<Rightarrow> calendarEvent \<Rightarrow> alarmInfo list \<Rightarrow> bool \<Rightarrow> bool
     \<Rightarrow> (error + bool) \<times> viewModel \<times> call list" where
  "saveAndSend_chain w vm newEvent newAlarms withCancel withUpdate =
     (case sendInvite w vm newEvent of
        (Some err, vm1, ev1, t1) \<Rightarrow> (Inl err, vm1, t1)
      | (None, vm1, ev1, t1) \<Rightarrow>
          (let cancel = (if withCancel \<and> length (bccRecipients (cancelModel vm1)) > 0
                         then [SendCancellation ev1 (cancelModel vm1)] else [])
           in case (case cancel of [] \<Rightarrow> None | c # _ \<Rightarrow> rejects w c) of
                Some err \<Rightarrow> (Inl err, vm1, t1 @ cancel)
              | None \<Rightarrow>
                  (case doCreateEvent w vm1 ev1 newAlarms of
                     (Some err, t3) \<Rightarrow> (Inl err, vm1, t1 @ cancel @ t3)
                   | (None, t3) \<Rightarrow>
                       (let update = (if withUpdate then [SendUpdate ev1 (updateModel vm1)]
                                      else [])
                        in case (case update of [] \<Rightarrow> None | c # _ \<Rightarrow> rejects w c) of
                             Some err \<Rightarrow> (Inl err, vm1, t1 @ cancel @ t3 @ update)
                           | None \<Rightarrow> (Inr True, vm1, t1 @ cancel @ t3 @ update)))))"

text \<open>The branch of \<^verbatim>\<open>saveAndSend\<close> for the user's own event.\<close>

definition saveAndSend_own ::
  "env \<Rightarrow> world \<Rightarrow> viewModel \<Rightarrow> calendarEvent \<Rightarrow> guest list
     \<Rightarrow> (error + bool) \<times> viewModel \<times> call list" where
  "saveAndSend_own e w vm newEvent existingAttendees =
     (if length existingAttendees > 0 \<or> length (bccRecipients (cancelModel vm)) > 0 then
        (let sendOutUpdate = askForUpdates w
         in case (if sendOutUpdate then passwordCheck e w vm else (True, [])) of
              (send, t0) \<Rightarrow>
                if \<not> send then (Inr False, vm, AskForUpdates # t0)
                else
                  (case saveAndSend_chain w vm newEvent (alarms vm) True
                          (sendOutUpdate \<and> length existingAttendees > 0) of
                     (r, vm1, t1) \<Rightarrow> (r, vm1, AskForUpdates # t0 @ t1)))
      else
        (case passwordCheck e w vm of
           (send, t0) \<Rightarrow>
             if \<not> send then (Inr False, vm, t0)
             else
               (case saveAndSend_chain w vm newEvent (alarms vm) False False of
                  (r, vm1, t1) \<Rightarrow> (r, vm1, t0 @ t1))))"

text \<open>The branch of \<^verbatim>\<open>saveAndSend\<close> for an event that is not the user's own.\<close>

definition saveAndSend_other ::
  "env \<Rightarrow> world \<Rightarrow> viewModel \<Rightarrow> calendarEvent \<Rightarrow> (error + bool) \<times> viewModel \<times> call list" where
  "saveAndSend_other e w vm newEvent =
     (case saveAndSend_response e w vm newEvent of
        (Some err, vm1, t1) \<Rightarrow> (Inl err, vm1, t1)
      | (None, vm1, t1) \<Rightarrow>
          (case passwordCheck e w vm1 of
             (send, t2) \<Rightarrow>
               if send then
                 (case doCreateEvent w vm1 newEvent (alarms vm1) of
                    (Some err, t3) \<Rightarrow> (Inl err, vm1, t1 @ t2 @ t3)
                  | (None, t3) \<Rightarrow> (Inr True, vm1, t1 @ t2 @ t3))
               else (Inr True, vm1, t1 @ t2)))"

text \<open>
  \<^verbatim>\<open>saveAndSend\<close>: the value the promise resolves to (\<open>Inr\<close>) or is rejected with (\<open>Inl\<close>), the
  view-model afterwards, and the calls made, in order. The busy flag is set for the duration
  of the save and cleared at its end, whatever the outcome.
\<close>

definition saveAndSend ::
  "env \<Rightarrow> world \<Rightarrow> viewModel \<Rightarrow> (error + bool) \<times> viewModel \<times> call list" where
  "saveAndSend e w vm =
     (if processing vm then (Inr False, vm, [])
      else
        (let vm0 = vm\<lparr>processing := True\<rparr>
         in case (case saveAndSend_newEvent e vm0 of
                    Inl err \<Rightarrow> (Inl err, vm0, [])
                  | Inr newEvent \<Rightarrow>
                      if viewingOwnEvent vm0
                      then saveAndSend_own e w vm0 newEvent (saveAndSend_existingAttendees vm0)
                      else saveAndSend_other e w vm0 newEvent) of
              (r, vm1, t) \<Rightarrow> (r, vm1\<lparr>processing := False\<rparr>, t)))"

section \<open>Replying to an invitation\<close>









text \<open>The event that a persistence call stores.\<close>

fun persistedEvent :: "call \<Rightarrow> calendarEvent option" where
  "persistedEvent (CreateEvent ev al z g) = Some ev"
| "persistedEvent (UpdateEvent ev al z g ex) = Some ev"
| "persistedEvent _ = None"

text \<open>The addresses on the send model that goes out with a notification.\<close>

fun notifiedAddresses :: "call \<Rightarrow> string list" where
  "notifiedAddresses (SendInvite ev m) = map mailAddress (modelRecipients m)"
| "notifiedAddresses (SendCancellation ev m) = map mailAddress (modelRecipients m)"
| "notifiedAddresses (SendUpdate ev m) = map mailAddress (modelRecipients m)"
| "notifiedAddresses (SendResponse ev m sendAs previousMail decision) =
     map mailAddress (modelRecipients m)"
| "notifiedAddresses _ = []"

section \<open>Example values\<close>

text \<open>
  A concrete environment and a concrete view-model, used to run the model: zones with a fixed
  offset (one hour for Europe/Berlin, as in March 2024), times written \<^verbatim>\<open>HH:MM\<close>, and the state
  of a view-model made for a new event of a user with one mail address.
\<close>

definition digitOf :: "char \<Rightarrow> nat option" where
  "digitOf c =
     (let n = (of_char c :: nat) in if 48 \<le> n \<and> n \<le> 57 then Some (n - 48) else None)"

definition parseTime24 :: "string \<Rightarrow> (nat \<times> nat) option" where
  "parseTime24 s =
     (case s of
        [a, b, c, d, f] \<Rightarrow>
          (case (digitOf a, digitOf b, digitOf d, digitOf f) of
             (Some x, Some y, Some u, Some v) \<Rightarrow>
               if c = CHR '':'' \<and> 10 * x + y < 24 \<and> 10 * u + v < 60
               then Some (10 * x + y, 10 * u + v) else None
           | _ \<Rightarrow> None)
      | _ \<Rightarrow> None)"

definition exampleOffset :: "string \<Rightarrow> int" where
  "exampleOffset z = (if z = ''Europe/Berlin'' then 3600000 else 0)"

definition exampleEnv :: env where
  "exampleEnv =
     \<lparr>parseTime = parseTime24,
      getAllDayDateUTCFromZone = allDayDateUTCFixed exampleOffset,
      getStartOfNextDayWithZone = startOfNextDayFixed exampleOffset,
      getStartOfDayWithZone = startOfDayFixed exampleOffset,
      getEventStart = eventStartFixed exampleOffset,
      setHourMinute = setHourMinuteFixed exampleOffset,
      generateUid = (\<lambda>g. g @ ''@tutanota.com''),
      recipientType =
        (\<lambda>a. if a = ''alice@tutanota.com'' \<or> a = ''me@tutanota.com'' then INTERNAL else EXTERNAL),
      getPasswordStrength = (\<lambda>r. 100)\<rparr>"

definition emptyModel :: sendMailModel where
  "emptyModel = \<lparr>toRecipients = [], bccRecipients = [], confidential = False\<rparr>"

text \<open>The user confirms every prompt and no call is rejected.\<close>

definition exampleWorld :: world where
  "exampleWorld =
     \<lparr>askForUpdates = True, askInsecurePassword = True, sendModelFactory = emptyModel,
      rejects = (\<lambda>c. None)\<rparr>"

text \<open>A new event on 2024-03-10 in Europe/Berlin, from 09:00 to 09:30.\<close>

definition exampleViewModel :: viewModel where
  "exampleViewModel =
     \<lparr>vmSummary = ''Meeting'',
      selectedCalendar = Some \<lparr>groupId = ''calendar1'', groupRoot = ''root1'', shared = False\<rparr>,
      startDate = 1710025200000, endDate = 1710025200000,
      vmStartTime = ''09:00'', vmEndTime = ''09:30'',
      allDay = False, repeat = None,
      vmOrganizer = Some \<lparr>name = Some ''Me'', address = ''me@tutanota.com''\<rparr>,
      vmLocation = [], vmNote = [], existingEvent = None, zone = ''Europe/Berlin'',
      alarms = [], userAccountType = PREMIUM, eventType = OWN,
      inviteModel = emptyModel, updateModel = emptyModel, cancelModel = emptyModel,
      mailAddresses = [''me@tutanota.com''], guestStatuses = Map.empty, ownAttendee = None,
      responseTo = None, processing = False\<rparr>"

text \<open>The example view-model after \<^verbatim>\<open>addAttendee("bob@example.com", null)\<close>.\<close>

definition guestsViewModel :: viewModel where
  "guestsViewModel =
     exampleViewModel
       \<lparr>inviteModel := emptyModel\<lparr>bccRecipients :=
            [\<lparr>mailAddress = ''bob@example.com'', riName = None, riContact = None,
              riType = EXTERNAL\<rparr>]\<rparr>,
        guestStatuses := [''bob@example.com'' \<mapsto> ADDED, ''me@tutanota.com'' \<mapsto> ACCEPTED],
        ownAttendee := Some \<lparr>name = Some [], address = ''me@tutanota.com''\<rparr>\<rparr>"

text \<open>
  The example view-model after \<^verbatim>\<open>setConfidential(true)\<close> and
  \<^verbatim>\<open>addAttendee("bob@example.com", null)\<close>: a confidential event with an external guest
  that has no password.
\<close>

definition confidentialViewModel :: viewModel where
  "confidentialViewModel = setConfidential guestsViewModel True"

text \<open>
  The example view-model after \<^verbatim>\<open>addAttendee("me@tutanota.com", null)\<close> and
  \<^verbatim>\<open>addAttendee("bob@example.com", null)\<close>: the user has entered the own address as a guest.
\<close>

definition selfInviteViewModel :: viewModel where
  "selfInviteViewModel =
     exampleViewModel
       \<lparr>inviteModel := emptyModel\<lparr>bccRecipients :=
            [\<lparr>mailAddress = ''me@tutanota.com'', riName = None, riContact = None,
              riType = INTERNAL\<rparr>,
             \<lparr>mailAddress = ''bob@example.com'', riName = None, riContact = None,
              riType = EXTERNAL\<rparr>]\<rparr>,
        guestStatuses := [''me@tutanota.com'' \<mapsto> ACCEPTED, ''bob@example.com'' \<mapsto> ADDED]\<rparr>"

text \<open>
  An all-day event on 2024-04-02 in UTC that repeats daily until 2024-04-01, the day before
  it starts.
\<close>

definition untilDayBeforeViewModel :: viewModel where
  "untilDayBeforeViewModel =
     exampleViewModel
       \<lparr>allDay := True, zone := ''UTC'', startDate := 1712016000000, endDate := 1712016000000,
        repeat := Some \<lparr>frequency = DAILY, interval = Finite 1, endType = UntilDate,
                        endValue = Finite 1711929600000\<rparr>\<rparr>"

text \<open>The same event and repeat rule, from 09:00 to 09:30 instead of all day.\<close>

definition untilDayBeforeTimedViewModel :: viewModel where
  "untilDayBeforeTimedViewModel = untilDayBeforeViewModel\<lparr>allDay := False\<rparr>"










section \<open>The busy flag and the time range\<close>

text \<open>
  C3: while a save is in flight (the busy flag is set), another call of \<^verbatim>\<open>saveAndSend\<close> resolves
  to false, raises nothing, leaves every field of the view-model (and with it the existing
  event) as it was, and makes no call at all: no prompt, no notification, no persistence.
\<close>

theorem saveAndSend_busy:
  "processing vm \<Longrightarrow> saveAndSend e w vm = (Inr False, vm, [])"
  by (simp add: saveAndSend_def)

theorem saveAndSend_busy_witness:
  "processing (exampleViewModel\<lparr>processing := True\<rparr>)
   \<and> saveAndSend exampleEnv exampleWorld (exampleViewModel\<lparr>processing := True\<rparr>)
       = (Inr False, exampleViewModel\<lparr>processing := True\<rparr>, [])"
  using saveAndSend_busy [of "exampleViewModel\<lparr>processing := True\<rparr>" exampleEnv exampleWorld]
  by simp

lemma saveAndSend_times_processing:
  "saveAndSend_times e (vm\<lparr>processing := b\<rparr>) = saveAndSend_times e vm"
  by (simp add: saveAndSend_times_def split: option.splits)

text \<open>
  C1: a save that gets past the busy flag and computes an end timestamp that is not after the
  computed start timestamp is rejected with the user error \<^verbatim>\<open>startAfterEnd_label\<close>, and no call
  is made: no persistence (\<^verbatim>\<open>createEvent\<close>, \<^verbatim>\<open>updateEvent\<close>) and no notification. The view-model
  is as before, with the busy flag cleared again.
\<close>

theorem saveAndSend_time_range:
  assumes "\<not> processing vm"
    and "saveAndSend_times e vm = Inr (startD, endD)"
    and "endD \<le> startD"
  shows "saveAndSend e w vm = (Inl (UserError ''startAfterEnd_label''), vm, [])"
  using assms
  by (simp add: saveAndSend_def saveAndSend_newEvent_def saveAndSend_times_processing Let_def)

text \<open>
  The example of the specification: start 2024-03-10 09:00 in Europe/Berlin, end 08:30 on the
  same day.
\<close>

theorem saveAndSend_time_range_witness:
  "\<not> processing (exampleViewModel\<lparr>vmEndTime := ''08:30''\<rparr>)
   \<and> saveAndSend_times exampleEnv (exampleViewModel\<lparr>vmEndTime := ''08:30''\<rparr>)
       = Inr (1710057600000, 1710055800000)
   \<and> (1710055800000 :: int) \<le> 1710057600000
   \<and> saveAndSend exampleEnv exampleWorld (exampleViewModel\<lparr>vmEndTime := ''08:30''\<rparr>)
       = (Inl (UserError ''startAfterEnd_label''), exampleViewModel\<lparr>vmEndTime := ''08:30''\<rparr>, [])"
proof -
  have p: "\<not> processing (exampleViewModel\<lparr>vmEndTime := ''08:30''\<rparr>)"
    by (simp add: exampleViewModel_def)
  have t: "saveAndSend_times exampleEnv (exampleViewModel\<lparr>vmEndTime := ''08:30''\<rparr>)
             = Inr (1710057600000, 1710055800000)"
    by (simp add: saveAndSend_times_def exampleViewModel_def exampleEnv_def parseTime24_def
        digitOf_def setHourMinuteFixed_def exampleOffset_def DAY_MS_def)
  have l: "(1710055800000 :: int) \<le> 1710057600000" by simp
  show ?thesis
    using p t l saveAndSend_time_range [OF p t l, of exampleWorld] by simp
qed

section \<open>Adding an attendee twice\<close>

lemma guestsViewModel_reached:
  "addAttendee exampleEnv exampleViewModel ''bob@example.com'' None = Inr guestsViewModel"
  by (simp add: addAttendee_def attendeesOf_def exampleViewModel_def emptyModel_def
      addRecipient_def exampleEnv_def guestOfRecipient_def findOwnAttendee_def Let_def
      selectGoing_def canModifyOwnAttendance_def viewingOwnEvent_def guestsViewModel_def)

text \<open>
  C10: \<^verbatim>\<open>addAttendee\<close> with a mail address that already occurs in the current attendee list
  changes nothing: the view-model, and so the attendee list, the guest statuses and the
  recipients of the three send models, is the same afterwards, and nothing is thrown.
\<close>

theorem addAttendee_existing:
  "addr \<in> (\<lambda>a. address (gAddress a)) ` set (attendeesOf vm)
   \<Longrightarrow> addAttendee e vm addr c = Inr vm"
  by (auto simp: addAttendee_def)

theorem addAttendee_existing_witness:
  "''bob@example.com'' \<in> (\<lambda>a. address (gAddress a)) ` set (attendeesOf guestsViewModel)
   \<and> addAttendee exampleEnv guestsViewModel ''bob@example.com'' None = Inr guestsViewModel"
proof -
  have m: "''bob@example.com'' \<in> (\<lambda>a. address (gAddress a)) ` set (attendeesOf guestsViewModel)"
    by (simp add: attendeesOf_def guestsViewModel_def exampleViewModel_def emptyModel_def
        guestOfRecipient_def)
  show ?thesis using m addAttendee_existing [OF m, of exampleEnv None] by simp
qed

section \<open>Repeat rules\<close>

lemmas example_defs =
  exampleViewModel_def exampleEnv_def exampleWorld_def emptyModel_def exampleOffset_def
  guestsViewModel_def parseTime24_def digitOf_def

lemmas date_defs =
  setHourMinuteFixed_def startOfNextDayFixed_def allDayDateUTCFixed_def eventStartFixed_def
  startOfDayFixed_def isAllDayEvent_def DAY_MS_def

lemmas save_defs =
  saveAndSend_def saveAndSend_newEvent_def saveAndSend_times_def saveAndSend_uid_def
  saveAndSend_existingAttendees_def saveAndSend_own_def saveAndSend_chain_def
  saveAndSend_other_def saveAndSend_response_def sendInvite_def doCreateEvent_def
  passwordCheck_def hasInsecurePasswords_def isConfidential_def viewingOwnEvent_def
  attendeesOf_def guestOfRecipient_def createCalendarEvent_def modelRecipients_def
  hasPresharedPassword_def createRepeatRule_def createRepeatRuleWithValues_def newDate_def

lemma newDate_of_int: "\<bar>t\<bar> \<le> 8640000000000000 \<Longrightarrow> newDate (Finite (of_int t)) = Some t"
  by (auto simp add: newDate_def Let_def)

lemma greaterEq_num_one:
  "greaterEq_num c (Finite 1) \<longleftrightarrow> \<not> (isNaN c \<or> lessThan_num c (Finite 1))"
  by (cases c) auto

text \<open>
  C7: with end type "after N occurrences", an end value that is NaN or less than 1 gives a rule
  that never ends and has no end value, and nothing is thrown; an end value of at least 1 is
  stored as the occurrence count of a rule that ends after a count.
\<close>

theorem createRepeatRule_count:
  assumes "endType rep = Count"
  shows "(isNaN (endValue rep) \<or> lessThan_num (endValue rep) (Finite 1) \<longrightarrow>
            (\<exists>rule. createRepeatRule e vm newEvent rep = Inr rule
                \<and> rule_endType rule = Never \<and> rule_endValue rule = None))
       \<and> (greaterEq_num (endValue rep) (Finite 1) \<longrightarrow>
            (\<exists>rule. createRepeatRule e vm newEvent rep = Inr rule
                \<and> rule_endType rule = Count \<and> rule_endValue rule = Some (endValue rep)))"
  using assms
  by (cases "endValue rep")
     (auto simp: createRepeatRule_def Let_def createRepeatRuleWithValues_def)

theorem createRepeatRule_count_witness:
  "endType \<lparr>frequency = WEEKLY, interval = Finite 1, endType = Count, endValue = NaN\<rparr> = Count
   \<and> isNaN (endValue \<lparr>frequency = WEEKLY, interval = Finite 1, endType = Count, endValue = NaN\<rparr>)
   \<and> (\<exists>rule. createRepeatRule exampleEnv exampleViewModel createCalendarEvent
                \<lparr>frequency = WEEKLY, interval = Finite 1, endType = Count, endValue = NaN\<rparr>
              = Inr rule
            \<and> rule_endType rule = Never \<and> rule_endValue rule = None)
   \<and> greaterEq_num
        (endValue \<lparr>frequency = WEEKLY, interval = Finite 1, endType = Count, endValue = Finite 5\<rparr>)
        (Finite 1)
   \<and> (\<exists>rule. createRepeatRule exampleEnv exampleViewModel createCalendarEvent
                \<lparr>frequency = WEEKLY, interval = Finite 1, endType = Count, endValue = Finite 5\<rparr>
              = Inr rule
            \<and> rule_endType rule = Count \<and> rule_endValue rule = Some (Finite 5))"
  using
    createRepeatRule_count [of "\<lparr>frequency = WEEKLY, interval = Finite 1, endType = Count,
      endValue = NaN\<rparr>" exampleEnv exampleViewModel createCalendarEvent]
    createRepeatRule_count [of "\<lparr>frequency = WEEKLY, interval = Finite 1, endType = Count,
      endValue = Finite 5\<rparr>" exampleEnv exampleViewModel createCalendarEvent]
  by simp

text \<open>
  C8: in a zone with a fixed offset, for an all-day view-model whose repeat rule ends on a
  date, with an end value anywhere on the calendar day 2024-04-01 of the zone (day 19814
  since the epoch), and an all-day event that starts before 2024-04-02, the rule that is built
  ends on a date and its end value is 1712016000000, that is UTC midnight of 2024-04-02.
\<close>

theorem createRepeatRule_allDay_until:
  assumes "allDay vm" and "endType rep = UntilDate" and "endValue rep = Finite (of_int t)"
    and "(t + off (zone vm)) div DAY_MS = 19814" and "\<bar>off (zone vm)\<bar> \<le> DAY_MS"
    and "isAllDayEvent newEvent" and "startTime newEvent < 1712016000000"
  shows "\<exists>rule. createRepeatRule (fixedOffsetEnv off e) vm newEvent rep = Inr rule
           \<and> rule_endType rule = UntilDate
           \<and> rule_endValue rule = Some (Finite 1712016000000)"
proof -
  have b: "\<bar>t\<bar> \<le> 8640000000000000"
    using assms(4,5) unfolding DAY_MS_def by linarith
  have s: "startOfNextDayFixed off t (zone vm) = 1712016000000 - off (zone vm)"
    using assms(4) by (simp add: startOfNextDayFixed_def DAY_MS_def)
  have u: "allDayDateUTCFixed off (1712016000000 - off (zone vm)) (zone vm) = 1712016000000"
    by (simp add: allDayDateUTCFixed_def DAY_MS_def)
  show ?thesis
    using assms(1,2,3,6,7) s u
    by (simp add: createRepeatRule_def Let_def newDate_of_int [OF b] fixedOffsetEnv_def
        eventStartFixed_def createRepeatRuleWithValues_def)
qed

text \<open>
  An all-day event on 2024-03-10 in Europe/Berlin, repeated until 2024-04-01 (the end value is
  the local midnight of that day).
\<close>

theorem createRepeatRule_allDay_until_witness:
  "allDay (exampleViewModel\<lparr>allDay := True\<rparr>)
   \<and> (1711926000000 + exampleOffset (zone (exampleViewModel\<lparr>allDay := True\<rparr>))) div DAY_MS = 19814
   \<and> \<bar>exampleOffset (zone (exampleViewModel\<lparr>allDay := True\<rparr>))\<bar> \<le> DAY_MS
   \<and> isAllDayEvent (createCalendarEvent\<lparr>startTime := 1710028800000, endTime := 1710115200000\<rparr>)
   \<and> (\<exists>rule. createRepeatRule (fixedOffsetEnv exampleOffset exampleEnv)
                (exampleViewModel\<lparr>allDay := True\<rparr>)
                (createCalendarEvent\<lparr>startTime := 1710028800000, endTime := 1710115200000\<rparr>)
                \<lparr>frequency = DAILY, interval = Finite 1, endType = UntilDate,
                 endValue = Finite (of_int 1711926000000)\<rparr> = Inr rule
            \<and> rule_endType rule = UntilDate
            \<and> rule_endValue rule = Some (Finite 1712016000000))"
proof -
  have a: "allDay (exampleViewModel\<lparr>allDay := True\<rparr>)" by simp
  have d: "(1711926000000 + exampleOffset (zone (exampleViewModel\<lparr>allDay := True\<rparr>))) div DAY_MS
             = 19814"
    by (simp add: exampleViewModel_def exampleOffset_def DAY_MS_def)
  have o: "\<bar>exampleOffset (zone (exampleViewModel\<lparr>allDay := True\<rparr>))\<bar> \<le> DAY_MS"
    by (simp add: exampleViewModel_def exampleOffset_def DAY_MS_def)
  have i: "isAllDayEvent (createCalendarEvent\<lparr>startTime := 1710028800000, endTime := 1710115200000\<rparr>)"
    by (simp add: isAllDayEvent_def DAY_MS_def)
  have st: "startTime (createCalendarEvent\<lparr>startTime := 1710028800000, endTime := 1710115200000\<rparr>)
              < 1712016000000"
    by simp
  show ?thesis
    using a d o i st
      createRepeatRule_allDay_until [where vm = "exampleViewModel\<lparr>allDay := True\<rparr>"
        and off = exampleOffset and t = 1711926000000 and e = exampleEnv
        and rep = "\<lparr>frequency = DAILY, interval = Finite 1, endType = UntilDate,
                    endValue = Finite (of_int 1711926000000)\<rparr>"
        and newEvent = "createCalendarEvent\<lparr>startTime := 1710028800000,
                          endTime := 1710115200000\<rparr>"]
    by simp
qed

lemma createRepeatRule_until_before_start:
  assumes "endType rep = UntilDate" and "newDate (endValue rep) = Some d"
    and "getStartOfNextDayWithZone e d (zone vm) < getEventStart e newEvent (zone vm)"
  shows "createRepeatRule e vm newEvent rep = Inl (UserError ''startAfterEnd_label'')"
  using assms by (simp add: createRepeatRule_def Let_def)

lemma createRepeatRule_until_not_before_start:
  assumes "endType rep = UntilDate" and "newDate (endValue rep) = Some d"
    and "getEventStart e newEvent (zone vm) \<le> getStartOfNextDayWithZone e d (zone vm)"
  shows "\<exists>rule. createRepeatRule e vm newEvent rep = Inr rule \<and> rule_endType rule = UntilDate"
  using assms by (simp add: createRepeatRule_def Let_def createRepeatRuleWithValues_def)

text \<open>
  C6, the code at a boundary equal to the start: the all-day event on 2024-04-02 (UTC) that
  repeats until 2024-04-01 has the end boundary 2024-04-02 00:00, which is its resolved start.
  The save succeeds and stores the event with a rule ending at that boundary; no error is
  raised. The same event from 09:00 to 09:30 is rejected with \<^verbatim>\<open>startAfterEnd_label\<close> and
  nothing is stored.
\<close>

theorem createRepeatRule_boundary_equals_start:
  "fst (saveAndSend exampleEnv exampleWorld untilDayBeforeViewModel) = Inr True
   \<and> map (\<lambda>c. case persistedEvent c of
                 None \<Rightarrow> None
               | Some ev \<Rightarrow> Some (getEventStart exampleEnv ev ''UTC'', repeatRule ev))
       (snd (snd (saveAndSend exampleEnv exampleWorld untilDayBeforeViewModel)))
       = [Some (1712016000000,
                Some \<lparr>rule_frequency = DAILY, rule_interval = Finite 1, rule_endType = UntilDate,
                      rule_endValue = Some (Finite 1712016000000)\<rparr>)]
   \<and> getStartOfNextDayWithZone exampleEnv 1711929600000 ''UTC'' = 1712016000000
   \<and> saveAndSend exampleEnv exampleWorld untilDayBeforeTimedViewModel
       = (Inl (UserError ''startAfterEnd_label''), untilDayBeforeTimedViewModel, [])"
  by (simp add: untilDayBeforeViewModel_def untilDayBeforeTimedViewModel_def example_defs
      date_defs save_defs Let_def)

section \<open>The order of the calls of a save\<close>



















section \<open>Passwords of external guests\<close>

lemma checkPasswords_iff:
  "checkPasswords vm = Some (UserError ''noPreSharedPassword_msg'')
   \<longleftrightarrow> (\<exists>a \<in> set (attendeesOf vm).
          gType a = EXTERNAL \<and> (gPassword a = None \<or> gPassword a = Some []))"
  by (simp add: checkPasswords_def)

lemma newEvent_errors:
  assumes "saveAndSend_newEvent e vm = Inl err"
  shows "err \<noteq> UserError ''noPreSharedPassword_msg''"
  using assms
  by (auto simp: saveAndSend_newEvent_def saveAndSend_times_def saveAndSend_uid_def
      createRepeatRule_def Let_def
      split: sum.splits if_splits prod.splits option.splits)

lemma doCreateEvent_errors:
  assumes "rejects w = (\<lambda>c. None)" and "doCreateEvent w vm ev al = (Some err, t)"
  shows "err = AssertNotNull"
  using assms by (auto simp: doCreateEvent_def Let_def split: if_splits option.splits)

lemma sendInvite_errors:
  assumes "rejects w = (\<lambda>c. None)"
  shows "fst (sendInvite w vm ev) = None"
  using assms by (simp add: sendInvite_def Let_def)

lemma chain_errors:
  assumes "rejects w = (\<lambda>c. None)"
    and "saveAndSend_chain w vm ev al wc wu = (Inl err, vm1, t)"
  shows "err = AssertNotNull"
proof -
  obtain r vm' ev' t1 where si: "sendInvite w vm ev = (r, vm', ev', t1)"
    by (cases "sendInvite w vm ev") auto
  with sendInvite_errors [OF assms(1), of vm ev] have r: "r = None" by simp
  obtain r3 t3 where dc: "doCreateEvent w vm' ev' al = (r3, t3)"
    by (cases "doCreateEvent w vm' ev' al") auto
  show ?thesis
  proof (cases r3)
    case None
    with assms si r dc show ?thesis
      by (simp add: saveAndSend_chain_def Let_def split: list.splits)
  next
    case (Some x)
    with doCreateEvent_errors [OF assms(1)] dc have "x = AssertNotNull" by simp
    with assms si r dc Some show ?thesis
      by (simp add: saveAndSend_chain_def Let_def split: list.splits)
  qed
qed

lemma own_errors:
  assumes "rejects w = (\<lambda>c. None)"
    and "fst (saveAndSend_own e w vm ev ex) = Inl err"
  shows "err = AssertNotNull"
  using assms
  by (auto simp: saveAndSend_own_def Let_def split: if_splits prod.splits
      dest: chain_errors [OF assms(1)])

lemma response_errors:
  assumes "saveAndSend_response e w vm ev = (Some err, vm1, t)"
  shows "err = AssertNotNull"
  using assms
  by (auto simp: saveAndSend_response_def Let_def split: option.splits if_splits)

lemma other_errors:
  assumes "rejects w = (\<lambda>c. None)"
    and "fst (saveAndSend_other e w vm ev) = Inl err"
  shows "err = AssertNotNull"
  using assms
  by (auto simp: saveAndSend_other_def Let_def split: if_splits prod.splits option.splits
      dest: response_errors doCreateEvent_errors [OF assms(1)])

text \<open>
  When no call to the distributor or the calendar model is rejected, \<^verbatim>\<open>saveAndSend\<close> is never
  rejected with \<^verbatim>\<open>noPreSharedPassword_msg\<close>, whatever the attendees and their passwords are.
\<close>

lemma saveAndSend_never_checks_passwords:
  assumes "rejects w = (\<lambda>c. None)"
  shows "fst (saveAndSend e w vm) \<noteq> Inl (UserError ''noPreSharedPassword_msg'')"
proof
  assume a: "fst (saveAndSend e w vm) = Inl (UserError ''noPreSharedPassword_msg'')"
  then have np: "\<not> processing vm" by (auto simp: saveAndSend_def)
  let ?vm0 = "vm\<lparr>processing := True\<rparr>"
  show False
  proof (cases "saveAndSend_newEvent e ?vm0")
    case (Inl err)
    with a np have "err = UserError ''noPreSharedPassword_msg''"
      by (simp add: saveAndSend_def Let_def)
    with newEvent_errors [OF Inl] show False by simp
  next
    case (Inr ev)
    show False
    proof (cases "viewingOwnEvent ?vm0")
      case True
      with a np Inr have
        "fst (saveAndSend_own e w ?vm0 ev (saveAndSend_existingAttendees ?vm0))
           = Inl (UserError ''noPreSharedPassword_msg'')"
        by (simp add: saveAndSend_def Let_def split: prod.splits)
      from own_errors [OF assms this] show False by simp
    next
      case False
      with a np Inr have
        "fst (saveAndSend_other e w ?vm0 ev) = Inl (UserError ''noPreSharedPassword_msg'')"
        by (simp add: saveAndSend_def Let_def split: prod.splits)
      from other_errors [OF assms this] show False by simp
    qed
  qed
qed

text \<open>
  C2, the code at a confidential event with an external guest without password: the event is
  confidential, the guest \<^verbatim>\<open>bob@example.com\<close> is external and has no password, and
  \<^verbatim>\<open>_checkPasswords\<close> would throw \<^verbatim>\<open>noPreSharedPassword_msg\<close>. \<^verbatim>\<open>saveAndSend\<close> does not call it: the
  save resolves to true after the invite has been handed to the distributor and the event has
  been created.
\<close>

theorem saveAndSend_without_checkPasswords:
  "isConfidential confidentialViewModel
   \<and> map (\<lambda>a. (address (gAddress a), gType a, gPassword a)) (attendeesOf confidentialViewModel)
       = [(''me@tutanota.com'', INTERNAL, None), (''bob@example.com'', EXTERNAL, None)]
   \<and> checkPasswords confidentialViewModel = Some (UserError ''noPreSharedPassword_msg'')
   \<and> fst (saveAndSend exampleEnv exampleWorld confidentialViewModel) = Inr True
   \<and> map kindOf (snd (snd (saveAndSend exampleEnv exampleWorld confidentialViewModel)))
       = [KSendInvite, KCreateEvent]"
  by (simp add: confidentialViewModel_def setConfidential_def checkPasswords_def example_defs
      date_defs save_defs Let_def)

section \<open>Recipients of the notifications\<close>

lemma existingAttendees_iff:
  "g \<in> set (saveAndSend_existingAttendees vm) \<longleftrightarrow>
     eventType vm = OWN
     \<and> g \<in> set (attendeesOf vm)
     \<and> address (gAddress g) \<notin> set (mailAddresses vm)
     \<and> (\<exists>ex. existingEvent vm = Some ex
           \<and> (\<exists>ea \<in> set (attendees ex). address (aAddress ea) = address (gAddress g)))"
  unfolding saveAndSend_existingAttendees_def viewingOwnEvent_def
  by (cases "existingEvent vm"; cases "eventType vm = OWN") auto

lemma selfInviteViewModel_reached:
  "(case addAttendee exampleEnv exampleViewModel ''me@tutanota.com'' None of
      Inl err \<Rightarrow> None
    | Inr vm \<Rightarrow>
        (case addAttendee exampleEnv vm ''bob@example.com'' None of
           Inl err \<Rightarrow> None
         | Inr vm' \<Rightarrow> Some vm')) = Some selfInviteViewModel"
  by (simp add: addAttendee_def attendeesOf_def exampleViewModel_def emptyModel_def
      addRecipient_def exampleEnv_def guestOfRecipient_def findOwnAttendee_def Let_def
      selectGoing_def canModifyOwnAttendance_def viewingOwnEvent_def selfInviteViewModel_def)

text \<open>
  C5, the code after the user has entered the own address as a guest: \<^verbatim>\<open>me@tutanota.com\<close> is the
  mail address of the user, and the invite that the save hands to the distributor goes out
  with a send model that has \<^verbatim>\<open>me@tutanota.com\<close> among its recipients.
\<close>

theorem saveAndSend_invites_own_address:
  "mailAddresses selfInviteViewModel = [''me@tutanota.com'']
   \<and> fst (saveAndSend exampleEnv exampleWorld selfInviteViewModel) = Inr True
   \<and> map kindOf (snd (snd (saveAndSend exampleEnv exampleWorld selfInviteViewModel)))
       = [KSendInvite, KCreateEvent]
   \<and> map notifiedAddresses (snd (snd (saveAndSend exampleEnv exampleWorld selfInviteViewModel)))
       = [[''me@tutanota.com'', ''bob@example.com''], []]"
  by (simp add: selfInviteViewModel_def example_defs date_defs save_defs Let_def)

section \<open>The reply works on a clone\<close>









end
